theory Spec2Isabelle
  imports Main "HOL-Library.Sublist"
begin

section \<open>The book collection store of Code Caddy\<close>

text \<open>
  A shallow embedding of \<^verbatim>\<open>src/context/BookCollectionContext.tsx\<close>: the book record,
  the state of the store, the reducer with its four actions, the five actions the
  provider exposes and the four derived helpers. The state the provider keeps in
  \<^verbatim>\<open>useReducer\<close> is passed explicitly: every action takes the state and returns the
  next one, every helper reads the state it is given.
\<close>

subsection \<open>Data model\<close>

text \<open>\<^verbatim>\<open>type BookStatus = "want-to-read" | "currently-reading" | "have-read"\<close>\<close>

datatype BookStatus = WantToRead | CurrentlyReading | HaveRead

text \<open>
  \<^verbatim>\<open>interface Book\<close>. The field \<^verbatim>\<open>id\<close> is called \<open>book_id\<close> here (\<open>id\<close> is the
  identity function of HOL). An optional field is an \<open>option\<close>, \<open>None\<close> when the
  property is absent. The page count is a whole number in every record the source
  builds.
\<close>

record ImageLinks =
  thumbnail :: string

record Book =
  book_id :: string
  title :: string
  authors :: "string list"
  description :: string
  publishedDate :: "string option"
  pageCount :: "int option"
  imageLinks :: "ImageLinks option"
  status :: "BookStatus option"

text \<open>\<^verbatim>\<open>interface BookCollectionState\<close>\<close>

record BookCollectionState =
  books :: "Book list"
  isLoading :: bool
  error :: "string option"
  searchResults :: "Book list"
  currentlyReading :: "Book list"
  wantToRead :: "Book list"
  haveRead :: "Book list"

text \<open>\<^verbatim>\<open>type BookCollectionAction\<close>: the tag and its payload.\<close>

datatype BookCollectionAction =
    ADD_BOOK Book
  | REMOVE_BOOK string
  | UPDATE_BOOK_STATUS string BookStatus
  | SET_SEARCH_RESULTS "Book list"

text \<open>The object \<^verbatim>\<open>{ completed, total }\<close> that \<^verbatim>\<open>getReadingProgress\<close> returns.\<close>

record ReadingProgress =
  completed :: nat
  total :: nat

subsection \<open>Sample data and initial state\<close>

text \<open>The two literals of \<^verbatim>\<open>sampleBooks\<close>; neither carries a \<^verbatim>\<open>status\<close> property.\<close>

definition sampleBooks :: "Book list" where
  "sampleBooks =
     [ \<lparr> book_id = ''1'',
         title = ''The Great Gatsby'',
         authors = [''F. Scott Fitzgerald''],
         description = ''A classic American novel'',
         publishedDate = Some ''1925'',
         pageCount = Some 180,
         imageLinks = Some \<lparr> thumbnail =
           ''https://via.placeholder.com/128x192/4a90e2/ffffff?text=Book'' \<rparr>,
         status = None \<rparr>,
       \<lparr> book_id = ''2'',
         title = ''To Kill a Mockingbird'',
         authors = [''Harper Lee''],
         description = ''A story of racial injustice and childhood innocence'',
         publishedDate = Some ''1960'',
         pageCount = Some 281,
         imageLinks = Some \<lparr> thumbnail =
           ''https://via.placeholder.com/128x192/7ed321/ffffff?text=Book'' \<rparr>,
         status = None \<rparr> ]"

definition initialState :: BookCollectionState where
  "initialState =
     \<lparr> books = map (\<lambda>book. book\<lparr>status := Some WantToRead\<rparr>) sampleBooks,
       isLoading = False,
       error = None,
       searchResults = [],
       currentlyReading = [],
       wantToRead = [],
       haveRead = [] \<rparr>"

subsection \<open>The reducer\<close>

text \<open>
  \<^verbatim>\<open>bookCollectionReducer\<close>, case by case. The \<^verbatim>\<open>default\<close> branch of the switch is
  not reachable from a value of the action type, which has the four tags only.
\<close>

fun bookCollectionReducer ::
  "BookCollectionState \<Rightarrow> BookCollectionAction \<Rightarrow> BookCollectionState" where
  "bookCollectionReducer state (ADD_BOOK payload) =
     state\<lparr>books := books state @ [payload\<lparr>status := Some WantToRead\<rparr>]\<rparr>"
| "bookCollectionReducer state (REMOVE_BOOK payload) =
     state\<lparr>books := filter (\<lambda>book. book_id book \<noteq> payload) (books state)\<rparr>"
| "bookCollectionReducer state (UPDATE_BOOK_STATUS ident st) =
     state\<lparr>books :=
       map (\<lambda>book. if book_id book = ident then book\<lparr>status := Some st\<rparr> else book)
         (books state)\<rparr>"
| "bookCollectionReducer state (SET_SEARCH_RESULTS payload) =
     state\<lparr>searchResults := payload\<rparr>"

subsection \<open>Actions of the provider\<close>

definition addBook :: "BookCollectionState \<Rightarrow> Book \<Rightarrow> BookCollectionState" where
  "addBook state book = bookCollectionReducer state (ADD_BOOK book)"

definition removeBook :: "BookCollectionState \<Rightarrow> string \<Rightarrow> BookCollectionState" where
  "removeBook state bookId = bookCollectionReducer state (REMOVE_BOOK bookId)"

definition updateBookStatus ::
  "BookCollectionState \<Rightarrow> string \<Rightarrow> BookStatus \<Rightarrow> BookCollectionState" where
  "updateBookStatus state bookId st =
     bookCollectionReducer state (UPDATE_BOOK_STATUS bookId st)"

definition clearSearch :: "BookCollectionState \<Rightarrow> BookCollectionState" where
  "clearSearch state = bookCollectionReducer state (SET_SEARCH_RESULTS [])"

text \<open>
  \<^verbatim>\<open>searchBooks\<close> awaits \<^verbatim>\<open>searchGoogleBooks(query)\<close>, a function of
  \<^verbatim>\<open>../services/googleBooksApi\<close>. What that call does is an input of the model: the
  promise is rejected with some error, or it resolves to an object whose \<^verbatim>\<open>items\<close>
  property is a list of books or is absent. The whole body sits in one \<^verbatim>\<open>try\<close>, so
  \<^verbatim>\<open>result.items.map\<close> on an absent \<^verbatim>\<open>items\<close> throws into the same \<^verbatim>\<open>catch\<close> as
  a rejection does.
\<close>

datatype GatewayOutcome = Rejected string | Resolved "Book list option"

text \<open>
  The template literal \<^verbatim>\<open>`search-${Date.now()}`\<close> prints the clock, a whole number
  of milliseconds, in decimal, with a minus sign before the epoch.
\<close>

definition digit_char :: "nat \<Rightarrow> char" where
  "digit_char d = ''0123456789'' ! (d mod 10)"

function string_of_nat :: "nat \<Rightarrow> string" where
  "string_of_nat n =
     (if n < 10 then [digit_char n] else string_of_nat (n div 10) @ [digit_char (n mod 10)])"
  by pat_completeness auto
termination
  by (relation "measure (\<lambda>n. n)") auto

declare string_of_nat.simps [simp del]

definition number_to_string :: "int \<Rightarrow> string" where
  "number_to_string i =
     (if i < 0 then CHR ''-'' # string_of_nat (nat (- i)) else string_of_nat (nat i))"

text \<open>The one record of \<^verbatim>\<open>mockResults\<close> in the \<^verbatim>\<open>catch\<close> branch.\<close>

definition mockResults :: "int \<Rightarrow> string \<Rightarrow> Book list" where
  "mockResults now query =
     [ \<lparr> book_id = ''search-'' @ number_to_string now,
         title = ''Search Result: '' @ query,
         authors = [''Sample Author''],
         description = ''This is a mock search result (API may be unavailable)'',
         publishedDate = Some ''2023'',
         pageCount = Some 200,
         imageLinks = Some \<lparr> thumbnail =
           ''https://via.placeholder.com/128x192/ff6b6b/ffffff?text=Search'' \<rparr>,
         status = Some WantToRead \<rparr> ]"

text \<open>
  \<^verbatim>\<open>searchBooks\<close>: \<open>searchGoogleBooks\<close> is the gateway, \<open>now\<close> what \<^verbatim>\<open>Date.now()\<close>
  returns in the \<^verbatim>\<open>catch\<close> branch, \<open>state\<close> the state the dispatch finds. The two
  console calls leave the state alone and are not modelled.
\<close>

definition searchBooks ::
  "(string \<Rightarrow> GatewayOutcome) \<Rightarrow> int \<Rightarrow> string \<Rightarrow> BookCollectionState \<Rightarrow> BookCollectionState"
  where
  "searchBooks searchGoogleBooks now query state =
     (case searchGoogleBooks query of
        Resolved (Some items) \<Rightarrow>
          bookCollectionReducer state
            (SET_SEARCH_RESULTS (map (\<lambda>book. book\<lparr>status := Some WantToRead\<rparr>) items))
      | Resolved None \<Rightarrow>
          bookCollectionReducer state (SET_SEARCH_RESULTS (mockResults now query))
      | Rejected err \<Rightarrow>
          bookCollectionReducer state (SET_SEARCH_RESULTS (mockResults now query)))"

subsection \<open>Helpers of the provider\<close>

definition getBooksByStatus :: "BookCollectionState \<Rightarrow> BookStatus \<Rightarrow> Book list" where
  "getBooksByStatus state st = filter (\<lambda>book. status book = Some st) (books state)"

definition getBookById :: "BookCollectionState \<Rightarrow> string \<Rightarrow> Book option" where
  "getBookById state ident = find (\<lambda>book. book_id book = ident) (books state)"

definition getTotalBooks :: "BookCollectionState \<Rightarrow> nat" where
  "getTotalBooks state = length (books state)"

definition getReadingProgress :: "BookCollectionState \<Rightarrow> ReadingProgress" where
  "getReadingProgress state =
     \<lparr> completed = length (filter (\<lambda>book. status book = Some HaveRead) (books state)),
       total = length (books state) \<rparr>"

subsection \<open>Reading a decimal string back\<close>

text \<open>
  Not part of the source: the value of a string of decimal digits with an optional
  leading minus sign, against which the identifier of the placeholder record is
  compared. \<open>digit_value\<close> is the position of a character among the ten digits.
\<close>

definition digit_value :: "char \<Rightarrow> nat" where
  "digit_value c = length (takeWhile (\<lambda>d. d \<noteq> c) ''0123456789'')"

definition decimal_value :: "string \<Rightarrow> nat" where
  "decimal_value cs = foldl (\<lambda>v c. 10 * v + digit_value c) 0 cs"

definition number_of_string :: "string \<Rightarrow> int" where
  "number_of_string cs =
     (case cs of
        [] \<Rightarrow> 0
      | c # rest \<Rightarrow> if c = CHR ''-'' then - int (decimal_value rest)
                    else int (decimal_value cs))"

subsection \<open>The uniqueness invariant and three records for examples\<close>

text \<open>No two records of the Collection have the same identifier.\<close>

definition unique_ids :: "BookCollectionState \<Rightarrow> bool" where
  "unique_ids state = distinct (map book_id (books state))"

text \<open>
  Three records as a caller could pass them to \<^verbatim>\<open>addBook\<close>: the first two have the
  identifiers of the sample books, the third a new one; they come without a status,
  with the status currently-reading and with the status have-read.
\<close>

definition recordA :: Book where
  "recordA =
     \<lparr> book_id = ''1'', title = ''Dune'', authors = [''Frank Herbert''],
       description = ''A desert planet'', publishedDate = Some ''1965'',
       pageCount = Some 412, imageLinks = None, status = None \<rparr>"

definition recordB :: Book where
  "recordB =
     \<lparr> book_id = ''2'', title = ''Emma'', authors = [''Jane Austen''],
       description = ''A comedy of manners'', publishedDate = None,
       pageCount = None, imageLinks = None, status = Some CurrentlyReading \<rparr>"

definition recordC :: Book where
  "recordC =
     \<lparr> book_id = ''3'', title = ''Ulysses'', authors = [],
       description = ''A day in Dublin'', publishedDate = None,
       pageCount = None, imageLinks = None, status = Some HaveRead \<rparr>"

section \<open>The initial state\<close>

text \<open>
  C10. Before any operation the Collection is not empty: it holds exactly the two
  hard-coded sample books, with identifiers "1" and "2" in this order, each with status
  want-to-read; so \<^verbatim>\<open>getTotalBooks()\<close> is 2 and \<^verbatim>\<open>getReadingProgress()\<close> is
  \<^verbatim>\<open>{ completed: 0, total: 2 }\<close>.
\<close>

theorem initial_state_two_samples:
  "map book_id (books initialState) = [''1'', ''2'']
   \<and> map status (books initialState) = [Some WantToRead, Some WantToRead]
   \<and> map (\<lambda>book. book\<lparr>status := None\<rparr>) (books initialState) = sampleBooks
   \<and> getTotalBooks initialState = 2
   \<and> getReadingProgress initialState = \<lparr> completed = 0, total = 2 \<rparr>"
  by (simp add: initialState_def sampleBooks_def getTotalBooks_def getReadingProgress_def)

section \<open>Helper lemmas\<close>

lemma books_searchBooks: "books (searchBooks gw now q s) = books s"
  by (simp add: searchBooks_def split: GatewayOutcome.splits option.splits)

lemma map_book_id_update:
  "map book_id (map (\<lambda>book. if book_id book = i then book\<lparr>status := Some st\<rparr> else book) bs)
     = map book_id bs"
  by (induction bs) auto

lemma find_append_cases:
  "find P (xs @ ys) = (case find P xs of None \<Rightarrow> find P ys | Some x \<Rightarrow> Some x)"
  by (induction xs) auto

text \<open>The printer of the clock value reads back, so it is injective.\<close>

lemma digit_value_digit_char: "digit_value (digit_char d) = d mod 10"
proof -
  have "d mod 10 < 10" by simp
  then consider "d mod 10 = 0" | "d mod 10 = 1" | "d mod 10 = 2" | "d mod 10 = 3"
    | "d mod 10 = 4" | "d mod 10 = 5" | "d mod 10 = 6" | "d mod 10 = 7"
    | "d mod 10 = 8" | "d mod 10 = 9"
    by atomize_elim arith
  then show ?thesis
    by cases (simp_all add: digit_char_def digit_value_def)
qed

lemma digit_char_is_digit: "digit_char d \<in> set ''0123456789''"
  unfolding digit_char_def by (rule nth_mem) simp

lemma decimal_value_snoc:
  "decimal_value (cs @ [c]) = 10 * decimal_value cs + digit_value c"
  by (simp add: decimal_value_def)

lemma decimal_value_string_of_nat: "decimal_value (string_of_nat n) = n"
proof (induction n rule: string_of_nat.induct)
  case (1 n)
  show ?case
  proof (cases "n < 10")
    case True
    then show ?thesis
      by (subst string_of_nat.simps) (simp add: decimal_value_def digit_value_digit_char)
  next
    case False
    with "1" have "decimal_value (string_of_nat (n div 10)) = n div 10"
      by simp
    with False show ?thesis
      by (subst string_of_nat.simps) (simp add: decimal_value_snoc digit_value_digit_char)
  qed
qed

lemma string_of_nat_digits:
  "string_of_nat n \<noteq> [] \<and> set (string_of_nat n) \<subseteq> set ''0123456789''"
proof (induction n rule: string_of_nat.induct)
  case (1 n)
  show ?case
  proof (cases "n < 10")
    case True
    then have "string_of_nat n = [digit_char n]"
      by (subst string_of_nat.simps) simp
    then show ?thesis
      using digit_char_is_digit [of n] by simp
  next
    case False
    then have "string_of_nat n = string_of_nat (n div 10) @ [digit_char (n mod 10)]"
      by (subst string_of_nat.simps) simp
    moreover from False "1" have "set (string_of_nat (n div 10)) \<subseteq> set ''0123456789''"
      by simp
    ultimately show ?thesis
      using digit_char_is_digit [of "n mod 10"] by simp
  qed
qed

lemma number_of_string_number_to_string: "number_of_string (number_to_string i) = i"
proof (cases "i < 0")
  case True
  then show ?thesis
    by (simp add: number_to_string_def number_of_string_def decimal_value_string_of_nat)
next
  case False
  obtain c rest where split: "string_of_nat (nat i) = c # rest"
    using string_of_nat_digits [of "nat i"] by (cases "string_of_nat (nat i)") auto
  then have "c \<in> set ''0123456789''"
    using string_of_nat_digits [of "nat i"] by auto
  then have "c \<noteq> CHR ''-''"
    by auto
  moreover have "decimal_value (c # rest) = nat i"
    using decimal_value_string_of_nat [of "nat i"] split by simp
  ultimately show ?thesis
    using False split by (simp add: number_to_string_def number_of_string_def)
qed

lemma number_to_string_inj: "number_to_string i = number_to_string j \<Longrightarrow> i = j"
  by (metis number_of_string_number_to_string)

section \<open>Unique identifiers\<close>

text \<open>
  C1, as the code has it. The Collection of the initial state has no two records with
  the same identifier, and from a state without duplicates \<^verbatim>\<open>removeBook\<close>,
  \<^verbatim>\<open>updateBookStatus\<close>, \<^verbatim>\<open>searchBooks\<close> and \<^verbatim>\<open>clearSearch\<close> lead to a state without
  duplicates. \<^verbatim>\<open>addBook\<close> does so exactly when the identifier of the new record is not
  yet in the Collection: the reducer appends without looking, so adding an identifier
  that is present gives a Collection with a duplicate.
\<close>

theorem unique_ids_preserved:
  "unique_ids initialState \<and>
   (unique_ids s \<longrightarrow>
      (unique_ids (addBook s r) \<longleftrightarrow> getBookById s (book_id r) = None)
      \<and> unique_ids (removeBook s i)
      \<and> unique_ids (updateBookStatus s i st)
      \<and> unique_ids (searchBooks gw now q s)
      \<and> unique_ids (clearSearch s))"
proof -
  have init: "unique_ids initialState"
    by (simp add: unique_ids_def initialState_def sampleBooks_def)
  have add: "unique_ids (addBook s r) \<longleftrightarrow> getBookById s (book_id r) = None" if "unique_ids s"
    using that
    by (force simp: unique_ids_def addBook_def getBookById_def find_None_iff image_iff)
  have rem: "unique_ids (removeBook s i)" if "unique_ids s"
    using that by (simp add: unique_ids_def removeBook_def distinct_map_filter)
  have upd: "unique_ids (updateBookStatus s i st)" if "unique_ids s"
    using that
    by (simp add: unique_ids_def updateBookStatus_def map_book_id_update del: map_map)
  have srch: "unique_ids (searchBooks gw now q s)" if "unique_ids s"
    using that by (simp add: unique_ids_def books_searchBooks)
  have clr: "unique_ids (clearSearch s)" if "unique_ids s"
    using that by (simp add: unique_ids_def clearSearch_def)
  from init add rem upd srch clr show ?thesis by blast
qed

theorem unique_ids_preserved_witness:
  "unique_ids initialState
   \<and> getBookById initialState (book_id recordC) = None
   \<and> unique_ids (addBook initialState recordC)
   \<and> unique_ids (removeBook initialState ''1'')
   \<and> unique_ids (updateBookStatus initialState ''1'' HaveRead)
   \<and> unique_ids (searchBooks (\<lambda>_. Rejected ''offline'') 0 ''dune'' initialState)
   \<and> unique_ids (clearSearch initialState)"
  using unique_ids_preserved [of initialState recordC "''1''" HaveRead
      "\<lambda>_. Rejected ''offline''" 0 "''dune''"]
  by (simp add: getBookById_def initialState_def sampleBooks_def recordC_def)

text \<open>
  The claim as stated fails: after \<^verbatim>\<open>addBook\<close> of a record with identifier "1" in the
  initial state, the Collection holds two records with identifier "1".
\<close>

theorem addBook_duplicate_counterexample:
  "\<not> unique_ids (addBook initialState recordA)"
  by (simp add: unique_ids_def addBook_def initialState_def sampleBooks_def recordA_def)

section \<open>Adding a record\<close>

text \<open>
  C2, as the code has it. \<^verbatim>\<open>addBook(r)\<close> changes the Collection only, appending at its
  end the record \<open>r\<close> with the status want-to-read, whatever status \<open>r\<close> had.
  Afterwards \<^verbatim>\<open>getBookById(r.id)\<close> returns that record when no record with this
  identifier was in the Collection before; when there was one, it returns the first
  such record of the old Collection, as before.
\<close>

theorem addBook_appends_and_lookup:
  "addBook s r = s\<lparr>books := books s @ [r\<lparr>status := Some WantToRead\<rparr>]\<rparr>
   \<and> (getBookById s (book_id r) = None \<longrightarrow>
        getBookById (addBook s r) (book_id r) = Some (r\<lparr>status := Some WantToRead\<rparr>))
   \<and> (\<forall>b. getBookById s (book_id r) = Some b \<longrightarrow>
        getBookById (addBook s r) (book_id r) = Some b)"
  by (simp add: addBook_def getBookById_def find_append_cases)

theorem addBook_appends_and_lookup_witness:
  "getBookById initialState (book_id recordC) = None
   \<and> getBookById (addBook initialState recordC) (book_id recordC)
       = Some (recordC\<lparr>status := Some WantToRead\<rparr>)
   \<and> getBookById initialState (book_id recordA) = Some (hd (books initialState))
   \<and> getBookById (addBook initialState recordA) (book_id recordA)
       = Some (hd (books initialState))"
  using addBook_appends_and_lookup [of initialState recordC]
    addBook_appends_and_lookup [of initialState recordA]
  by (simp add: getBookById_def initialState_def sampleBooks_def recordC_def recordA_def)

text \<open>
  The claim as stated fails: in the initial state, after \<^verbatim>\<open>addBook\<close> of a record with
  identifier "1", \<^verbatim>\<open>getBookById("1")\<close> is not that record with status want-to-read
  (it is the sample book).
\<close>

theorem addBook_lookup_counterexample:
  "getBookById (addBook initialState recordA) (book_id recordA)
     \<noteq> Some (recordA\<lparr>status := Some WantToRead\<rparr>)"
  by (simp add: getBookById_def addBook_def initialState_def sampleBooks_def recordA_def)

section \<open>Removing a record\<close>

text \<open>
  C3. In every state and for every identifier, \<^verbatim>\<open>getBookById(id)\<close> after
  \<^verbatim>\<open>removeBook(id)\<close> finds nothing (\<^verbatim>\<open>undefined\<close>, here \<open>None\<close>), also when no
  record had this identifier; in that case \<^verbatim>\<open>removeBook(id)\<close> returns the state as it
  was. The reducer has no branch that throws.
\<close>

theorem removeBook_then_getBookById:
  "getBookById (removeBook s i) i = None
   \<and> (getBookById s i = None \<longrightarrow> removeBook s i = s)"
  by (auto simp: getBookById_def removeBook_def find_None_iff filter_id_conv)

theorem removeBook_then_getBookById_witness:
  "getBookById initialState ''7'' = None
   \<and> removeBook initialState ''7'' = initialState
   \<and> getBookById (removeBook initialState ''7'') ''7'' = None"
  using removeBook_then_getBookById [of initialState "''7''"]
  by (simp add: getBookById_def initialState_def sampleBooks_def)

section \<open>Updating a status\<close>

text \<open>
  C4. \<^verbatim>\<open>updateBookStatus\<close> is idempotent: in every state, for every identifier and
  every status, applying it twice gives the state that applying it once gives.
\<close>

theorem updateBookStatus_idempotent:
  "updateBookStatus (updateBookStatus s i st) i st = updateBookStatus s i st"
  by (simp add: updateBookStatus_def comp_def)

section \<open>Derived views\<close>

text \<open>
  C5. For every state and each of the three statuses, \<^verbatim>\<open>getBooksByStatus(s)\<close> is the
  subsequence of the Collection of the records with status \<open>s\<close>, in the order of the
  Collection: it is a subsequence of the Collection, a record of the Collection is in
  it exactly when its status is \<open>s\<close>, and every subsequence of the Collection whose
  records all have status \<open>s\<close> is a subsequence of it. On an empty Collection it is
  empty.
\<close>

theorem getBooksByStatus_subsequence:
  "subseq (getBooksByStatus s st) (books s)
   \<and> (\<forall>b \<in> set (books s). b \<in> set (getBooksByStatus s st) \<longleftrightarrow> status b = Some st)
   \<and> (\<forall>zs. subseq zs (books s) \<and> (\<forall>b \<in> set zs. status b = Some st)
          \<longrightarrow> subseq zs (getBooksByStatus s st))
   \<and> (books s = [] \<longrightarrow> getBooksByStatus s st = [])"
proof -
  have "subseq zs (getBooksByStatus s st)"
    if "subseq zs (books s)" and "\<forall>b \<in> set zs. status b = Some st" for zs
  proof -
    have "filter (\<lambda>b. status b = Some st) zs = zs"
      using that(2) by (simp add: filter_id_conv)
    moreover have "subseq (filter (\<lambda>b. status b = Some st) zs) (getBooksByStatus s st)"
      unfolding getBooksByStatus_def using that(1) by (rule subseq_filter)
    ultimately show ?thesis by simp
  qed
  then show ?thesis
    by (auto simp: getBooksByStatus_def)
qed

theorem getBooksByStatus_subsequence_witness:
  "subseq [(sampleBooks ! 1)\<lparr>status := Some HaveRead\<rparr>]
      (books (updateBookStatus initialState ''2'' HaveRead))
   \<and> status ((sampleBooks ! 1)\<lparr>status := Some HaveRead\<rparr>) = Some HaveRead
   \<and> (sampleBooks ! 1)\<lparr>status := Some HaveRead\<rparr>
        \<in> set (books (updateBookStatus initialState ''2'' HaveRead))
   \<and> subseq [(sampleBooks ! 1)\<lparr>status := Some HaveRead\<rparr>]
        (getBooksByStatus (updateBookStatus initialState ''2'' HaveRead) HaveRead)
   \<and> (sampleBooks ! 1)\<lparr>status := Some HaveRead\<rparr>
        \<in> set (getBooksByStatus (updateBookStatus initialState ''2'' HaveRead) HaveRead)
   \<and> books (removeBook (removeBook initialState ''1'') ''2'') = []
   \<and> getBooksByStatus (removeBook (removeBook initialState ''1'') ''2'') WantToRead = []"
  using getBooksByStatus_subsequence [of "updateBookStatus initialState ''2'' HaveRead" HaveRead]
    getBooksByStatus_subsequence [of "removeBook (removeBook initialState ''1'') ''2''" WantToRead]
  by (simp add: updateBookStatus_def removeBook_def initialState_def sampleBooks_def)

text \<open>
  C6. After any finite sequence of reducer actions from any state (so after any
  sequence of \<^verbatim>\<open>addBook\<close>, \<^verbatim>\<open>removeBook\<close> and \<^verbatim>\<open>updateBookStatus\<close>, which dispatch
  one action each), \<^verbatim>\<open>getReadingProgress()\<close> is the number of positions of the
  Collection that hold a record with status have-read, together with the number of
  records of the Collection.
\<close>

theorem getReadingProgress_after_ops:
  "completed (getReadingProgress (foldl bookCollectionReducer s acts))
     = card {i. i < length (books (foldl bookCollectionReducer s acts))
              \<and> status (books (foldl bookCollectionReducer s acts) ! i) = Some HaveRead}
   \<and> total (getReadingProgress (foldl bookCollectionReducer s acts))
     = length (books (foldl bookCollectionReducer s acts))"
  by (simp add: getReadingProgress_def length_filter_conv_card)

section \<open>Searching\<close>

text \<open>
  C7. For every query \<open>q\<close>, when the gateway call inside \<^verbatim>\<open>searchBooks(q)\<close> fails (the
  promise is rejected, or the object it resolves to has no \<^verbatim>\<open>items\<close>), the search
  results afterwards are exactly one record, the placeholder of the \<^verbatim>\<open>catch\<close> branch:
  its title is "Search Result: " followed by \<open>q\<close>, so it contains \<open>q\<close> verbatim, and
  its identifier is generated from the clock value \<^verbatim>\<open>Date.now()\<close>: it is "search-"
  followed by a decimal numeral that reads back as the clock value, so two failed
  searches get the same identifier only at the same clock value.
\<close>

theorem search_failure_placeholder:
  assumes "searchGoogleBooks q = Rejected e \<or> searchGoogleBooks q = Resolved None"
  shows "length (searchResults (searchBooks searchGoogleBooks now q s)) = 1
    \<and> map title (searchResults (searchBooks searchGoogleBooks now q s))
        = [''Search Result: '' @ q]
    \<and> (\<forall>b \<in> set (searchResults (searchBooks searchGoogleBooks now q s)).
          sublist q (title b))
    \<and> map book_id (searchResults (searchBooks searchGoogleBooks now q s))
        = [''search-'' @ number_to_string now]
    \<and> searchResults (searchBooks searchGoogleBooks now q s) = mockResults now q
    \<and> map (\<lambda>b. number_of_string (drop 7 (book_id b)))
          (searchResults (searchBooks searchGoogleBooks now q s)) = [now]
    \<and> (\<forall>now' s'.
          map book_id (searchResults (searchBooks searchGoogleBooks now' q s'))
            = map book_id (searchResults (searchBooks searchGoogleBooks now q s))
          \<longrightarrow> now' = now)"
proof -
  have res: "searchResults (searchBooks searchGoogleBooks t q u) = mockResults t q" for t u
    using assms by (auto simp: searchBooks_def)
  have embeds: "sublist q (''Search Result: '' @ q)"
    by (rule sublist_append_leftI)
  have "sublist q (title b)" if "b \<in> set (mockResults now q)" for b
    using that embeds by (simp add: mockResults_def)
  moreover have "now' = now"
    if "map book_id (mockResults now' q) = map book_id (mockResults now q)" for now'
  proof -
    from that have "number_to_string now' = number_to_string now"
      by (simp add: mockResults_def)
    then show ?thesis
      by (rule number_to_string_inj)
  qed
  moreover have "map (\<lambda>b. number_of_string (drop 7 (book_id b))) (mockResults now q) = [now]"
    by (simp add: mockResults_def number_of_string_number_to_string)
  ultimately show ?thesis
    unfolding res by (simp add: mockResults_def)
qed

theorem search_failure_placeholder_witness:
  "(\<lambda>_. Rejected ''Failed to fetch'') ''dune'' = Rejected ''Failed to fetch''
   \<and> length (searchResults
        (searchBooks (\<lambda>_. Rejected ''Failed to fetch'') 1700000000000 ''dune'' initialState)) = 1
   \<and> map title (searchResults
        (searchBooks (\<lambda>_. Rejected ''Failed to fetch'') 1700000000000 ''dune'' initialState))
       = [''Search Result: dune'']
   \<and> map book_id (searchResults
        (searchBooks (\<lambda>_. Rejected ''Failed to fetch'') 1700000000000 ''dune'' initialState))
       = [''search-1700000000000'']
   \<and> sublist ''dune'' ''Search Result: dune''
   \<and> map book_id (searchResults
        (searchBooks (\<lambda>_. Rejected ''Failed to fetch'') 1700000000001 ''dune'' initialState))
       = [''search-1700000000001'']
   \<and> map book_id (searchResults
        (searchBooks (\<lambda>_. Rejected ''Failed to fetch'') (- 15) ''dune'' initialState))
       = [''search--15'']
   \<and> map book_id (searchResults
        (searchBooks (\<lambda>_. Rejected ''Failed to fetch'') 1700000000001 ''dune'' initialState))
       \<noteq> map book_id (searchResults
        (searchBooks (\<lambda>_. Rejected ''Failed to fetch'') 1700000000000 ''dune'' initialState))"
proof -
  let ?gw = "\<lambda>_ :: string. Rejected ''Failed to fetch''"
  let ?R = "\<lambda>t. searchResults (searchBooks ?gw t ''dune'' initialState)"
  note r = search_failure_placeholder [of ?gw "''dune''" "''Failed to fetch''"
      1700000000000 initialState]
  note r1 = search_failure_placeholder [of ?gw "''dune''" "''Failed to fetch''"
      1700000000001 initialState]
  note r2 = search_failure_placeholder [of ?gw "''dune''" "''Failed to fetch''"
      "- 15" initialState]
  from r have eq: "?R 1700000000000 = mockResults 1700000000000 ''dune''"
    by blast
  from r have "\<forall>b \<in> set (?R 1700000000000). sublist ''dune'' (title b)"
    by blast
  then have "sublist ''dune'' ''Search Result: dune''"
    unfolding eq by (simp add: mockResults_def)
  moreover from r have "length (?R 1700000000000) = 1"
    and "map title (?R 1700000000000) = [''Search Result: '' @ ''dune'']"
    and "map book_id (?R 1700000000000) = [''search-'' @ number_to_string 1700000000000]"
    by blast+
  moreover from r1 have "map book_id (?R 1700000000001)
      = [''search-'' @ number_to_string 1700000000001]"
    by blast
  moreover from r2 have "map book_id (?R (- 15)) = [''search-'' @ number_to_string (- 15)]"
    by blast
  moreover have "map book_id (?R 1700000000001) \<noteq> map book_id (?R 1700000000000)"
  proof
    assume same: "map book_id (?R 1700000000001) = map book_id (?R 1700000000000)"
    from r have "\<forall>now' s'. map book_id (searchResults (searchBooks ?gw now' ''dune'' s'))
          = map book_id (?R 1700000000000) \<longrightarrow> now' = 1700000000000"
      by blast
    with same have "(1700000000001 :: int) = 1700000000000"
      by blast
    then show False by simp
  qed
  ultimately show ?thesis
    by (simp add: number_to_string_def string_of_nat.simps digit_char_def)
qed

text \<open>
  C8. \<^verbatim>\<open>searchBooks\<close> and \<^verbatim>\<open>clearSearch\<close> never change the Collection: no
  \<^verbatim>\<open>SET_SEARCH_RESULTS\<close> transition touches the field \<^verbatim>\<open>books\<close>. Of the three other
  operations, \<^verbatim>\<open>addBook\<close> keeps the old Collection as a prefix of the new one (no
  record leaves or changes), \<^verbatim>\<open>removeBook\<close> leaves a subsequence of the old
  Collection (no record enters or changes), and \<^verbatim>\<open>updateBookStatus\<close> keeps every
  record in its place with every field but the status (no record enters or leaves).
\<close>

theorem search_leaves_collection:
  "books (bookCollectionReducer s (SET_SEARCH_RESULTS p)) = books s
   \<and> books (searchBooks searchGoogleBooks now q s) = books s
   \<and> books (clearSearch s) = books s
   \<and> prefix (books s) (books (addBook s r))
   \<and> subseq (books (removeBook s i)) (books s)
   \<and> map (\<lambda>b. b\<lparr>status := None\<rparr>) (books (updateBookStatus s i st))
       = map (\<lambda>b. b\<lparr>status := None\<rparr>) (books s)"
  by (simp add: books_searchBooks clearSearch_def addBook_def removeBook_def
      updateBookStatus_def comp_def)

section \<open>The scenario with two added records\<close>

text \<open>
  C9, as the code has it. Add a record \<open>A\<close> with identifier "1", then a record \<open>B\<close>
  with identifier "2", then \<^verbatim>\<open>updateBookStatus("2", "have-read")\<close>. From a state
  whose Collection is empty, \<^verbatim>\<open>getReadingProgress()\<close> is then
  \<^verbatim>\<open>{ completed: 1, total: 2 }\<close> and \<^verbatim>\<open>getBooksByStatus("have-read")\<close> is the list of
  \<open>B\<close> alone, with status have-read. From the initial state of the store, whose
  Collection already holds the sample books "1" and "2", the progress is
  \<^verbatim>\<open>{ completed: 2, total: 4 }\<close> and the list is the second sample book followed by
  \<open>B\<close>, both with status have-read.
\<close>

theorem scenario_from_empty_and_from_initial:
  "getReadingProgress
     (updateBookStatus
        (addBook (addBook (s\<lparr>books := []\<rparr>) (A\<lparr>book_id := ''1''\<rparr>)) (B\<lparr>book_id := ''2''\<rparr>))
        ''2'' HaveRead)
     = \<lparr> completed = 1, total = 2 \<rparr>
   \<and> getBooksByStatus
     (updateBookStatus
        (addBook (addBook (s\<lparr>books := []\<rparr>) (A\<lparr>book_id := ''1''\<rparr>)) (B\<lparr>book_id := ''2''\<rparr>))
        ''2'' HaveRead) HaveRead
     = [B\<lparr>book_id := ''2'', status := Some HaveRead\<rparr>]
   \<and> getReadingProgress
     (updateBookStatus
        (addBook (addBook initialState (A\<lparr>book_id := ''1''\<rparr>)) (B\<lparr>book_id := ''2''\<rparr>))
        ''2'' HaveRead)
     = \<lparr> completed = 2, total = 4 \<rparr>
   \<and> getBooksByStatus
     (updateBookStatus
        (addBook (addBook initialState (A\<lparr>book_id := ''1''\<rparr>)) (B\<lparr>book_id := ''2''\<rparr>))
        ''2'' HaveRead) HaveRead
     = [(sampleBooks ! 1)\<lparr>status := Some HaveRead\<rparr>,
        B\<lparr>book_id := ''2'', status := Some HaveRead\<rparr>]"
  by (simp add: getReadingProgress_def getBooksByStatus_def updateBookStatus_def addBook_def
      initialState_def sampleBooks_def)

text \<open>
  The claim as stated fails: from the initial state the progress is not
  \<^verbatim>\<open>{ completed: 1, total: 2 }\<close>, and the list of the records with status have-read
  does not have one element.
\<close>

theorem scenario_initial_counterexample:
  "getReadingProgress
     (updateBookStatus (addBook (addBook initialState recordA) recordB) ''2'' HaveRead)
     \<noteq> \<lparr> completed = 1, total = 2 \<rparr>
   \<and> length (getBooksByStatus
        (updateBookStatus (addBook (addBook initialState recordA) recordB) ''2'' HaveRead)
        HaveRead) \<noteq> 1"
  by (simp add: getReadingProgress_def getBooksByStatus_def updateBookStatus_def addBook_def
      initialState_def sampleBooks_def recordA_def recordB_def)

end
